theory Spec2Isabelle
  imports Complex_Main
begin

text \<open>
  A model of the agent's message processor (\<open>AIProcessor\<close>: skill classification, input
  and output hygiene, dispatch between the command handler and the completion client,
  recording of task outcomes) and of its profile manager (\<open>AgentProfileManager\<close>), with
  the properties of both. Collaborators of other modules are parameters; every call that
  can throw returns a sum, and a call of \<open>processMessage\<close> yields the calls it made to
  its collaborators together with the way its promise settles.
\<close>

section \<open>Strings\<close>

text \<open>
  A JavaScript string is a sequence of UTF-16 code units; \<open>length\<close>, \<open>substring\<close> and
  \<open>includes\<close> count and compare code units. The keywords and messages of the source are
  partly Cyrillic, so a string is modelled as the list of its code units, each a natural
  number. An ASCII literal is written \<open>ascii ''...''\<close>; a Cyrillic literal is written as
  its code units, with a transliteration beside it.
\<close>

type_synonym jsstring = "nat list"

definition ascii :: "string \<Rightarrow> jsstring" where
  "ascii s = map of_char s"

fun startsWith :: "jsstring \<Rightarrow> jsstring \<Rightarrow> bool" where
  "startsWith s [] = True"
| "startsWith [] (k # ks) = False"
| "startsWith (c # cs) (k # ks) = (c = k \<and> startsWith cs ks)"

text \<open>\<open>String.prototype.includes\<close>: the keyword occurs as a contiguous run of code units.\<close>

fun js_includes :: "jsstring \<Rightarrow> jsstring \<Rightarrow> bool" where
  "js_includes [] kw = (kw = [])"
| "js_includes (c # cs) kw = (startsWith (c # cs) kw \<or> js_includes cs kw)"

section \<open>The skill classifier: \<open>AIProcessor.detectSkillName\<close>\<close>

text \<open>
  \<open>String.prototype.toLowerCase\<close> is a built-in of the language, driven by the Unicode
  case tables; it is a parameter of the model. The keywords, in the order of the source:
  balans, balance, wallet, koshelek, koshelyok (with U+0451); tranzakts, transaction,
  istoriya; tsen, price, kurs; set', network, status (Cyrillic), status, slot.
\<close>

definition kw_balans :: jsstring where
  "kw_balans = [1073, 1072, 1083, 1072, 1085, 1089]"

definition kw_koshelek :: jsstring where
  "kw_koshelek = [1082, 1086, 1096, 1077, 1083, 1077, 1082]"

definition kw_koshelyok :: jsstring where
  "kw_koshelyok = [1082, 1086, 1096, 1077, 1083, 1105, 1082]"

definition kw_tranzakts :: jsstring where
  "kw_tranzakts = [1090, 1088, 1072, 1085, 1079, 1072, 1082, 1094]"

definition kw_istoriya :: jsstring where
  "kw_istoriya = [1080, 1089, 1090, 1086, 1088, 1080, 1103]"

definition kw_tsen :: jsstring where
  "kw_tsen = [1094, 1077, 1085]"

definition kw_kurs :: jsstring where
  "kw_kurs = [1082, 1091, 1088, 1089]"

definition kw_set :: jsstring where
  "kw_set = [1089, 1077, 1090, 1100]"

definition kw_status_ru :: jsstring where
  "kw_status_ru = [1089, 1090, 1072, 1090, 1091, 1089]"

definition detectSkillName :: "(jsstring \<Rightarrow> jsstring) \<Rightarrow> jsstring \<Rightarrow> jsstring" where
  "detectSkillName toLowerCase message =
     (let lower = toLowerCase message in
      if js_includes lower kw_balans \<or> js_includes lower (ascii ''balance'')
         \<or> js_includes lower (ascii ''wallet'') \<or> js_includes lower kw_koshelek
         \<or> js_includes lower kw_koshelyok
      then ascii ''Balance Checker''
      else if js_includes lower kw_tranzakts \<or> js_includes lower (ascii ''transaction'')
         \<or> js_includes lower kw_istoriya
      then ascii ''Transaction Analyzer''
      else if js_includes lower kw_tsen \<or> js_includes lower (ascii ''price'')
         \<or> js_includes lower kw_kurs
      then ascii ''Price Monitor''
      else if js_includes lower kw_set \<or> js_includes lower (ascii ''network'')
         \<or> js_includes lower kw_status_ru \<or> js_includes lower (ascii ''status'')
         \<or> js_includes lower (ascii ''slot'')
      then ascii ''Network Status''
      else [])"

text \<open>
  The classifier as the specification words it: an ordered list of rules, each a set of
  keywords with a tag, and the tag of the first rule one of whose keywords occurs in the
  lower-cased input, or the empty tag.
\<close>

definition balance_keywords :: "jsstring list" where
  "balance_keywords =
     [kw_balans, ascii ''balance'', ascii ''wallet'', kw_koshelek, kw_koshelyok]"

definition transaction_keywords :: "jsstring list" where
  "transaction_keywords = [kw_tranzakts, ascii ''transaction'', kw_istoriya]"

definition price_keywords :: "jsstring list" where
  "price_keywords = [kw_tsen, ascii ''price'', kw_kurs]"

definition network_keywords :: "jsstring list" where
  "network_keywords =
     [kw_set, ascii ''network'', kw_status_ru, ascii ''status'', ascii ''slot'']"

definition skill_rules :: "(jsstring list \<times> jsstring) list" where
  "skill_rules =
     [(balance_keywords, ascii ''Balance Checker''),
      (transaction_keywords, ascii ''Transaction Analyzer''),
      (price_keywords, ascii ''Price Monitor''),
      (network_keywords, ascii ''Network Status'')]"

definition rule_matches :: "jsstring \<Rightarrow> jsstring list \<times> jsstring \<Rightarrow> bool" where
  "rule_matches lower r = list_ex (js_includes lower) (fst r)"

definition first_match_spec :: "(jsstring list \<times> jsstring) list \<Rightarrow> jsstring \<Rightarrow> jsstring" where
  "first_match_spec rules lower =
     (case find (rule_matches lower) rules of None \<Rightarrow> [] | Some r \<Rightarrow> snd r)"

text \<open>
  An ASCII-only stand-in for \<open>toLowerCase\<close>, used to evaluate the classifier on concrete
  ASCII inputs: on a string of ASCII code units \<open>toLowerCase\<close> maps A..Z to a..z and
  leaves every other unit as it is.
\<close>

definition toLowerCase_ascii :: "jsstring \<Rightarrow> jsstring" where
  "toLowerCase_ascii s = map (\<lambda>c. if 65 \<le> c \<and> c \<le> 90 then c + 32 else c) s"

section \<open>Input and output hygiene: \<open>cleanInput\<close>, \<open>cleanOutput\<close>\<close>

text \<open>
  \<open>String.prototype.trim\<close> and the class \<open>\s\<close> of a regular expression use one set of
  code units: TAB, LF, VT, FF, CR, SPACE, U+00A0, U+1680, U+2000..U+200A, U+2028, U+2029,
  U+202F, U+205F, U+3000 and U+FEFF.
\<close>

definition is_js_space :: "nat \<Rightarrow> bool" where
  "is_js_space c =
     (c \<in> {9, 10, 11, 12, 13, 32, 160, 5760, 8232, 8233, 8239, 8287, 12288, 65279}
      \<or> (8192 \<le> c \<and> c \<le> 8202))"

definition trim :: "jsstring \<Rightarrow> jsstring" where
  "trim s = rev (dropWhile is_js_space (rev (dropWhile is_js_space s)))"

text \<open>\<open>replace(/\s+/g, ' ')\<close>: every maximal run of white space becomes one SPACE.\<close>

function collapse_spaces :: "jsstring \<Rightarrow> jsstring" where
  "collapse_spaces [] = []"
| "collapse_spaces (c # cs) =
     (if is_js_space c then 32 # collapse_spaces (dropWhile is_js_space cs)
      else c # collapse_spaces cs)"
  by pat_completeness auto
termination
  by (relation "measure length") (auto simp: le_imp_less_Suc length_dropWhile_le)

text \<open>
  \<open>replace(/[^\w\s\p{L}\p{N}?!.,;:()\-]/gu, '')\<close>. With the flag \<open>u\<close> the string is read
  by code points: a high surrogate followed by a low surrogate is one code point, any
  other code unit is a code point by itself. The Unicode property tables \<open>\p{L}\<close> and
  \<open>\p{N}\<close> belong to the language runtime and are parameters of the model.
\<close>

record runtime =
  toLowerCase :: "jsstring \<Rightarrow> jsstring"
  unicode_L :: "nat \<Rightarrow> bool"
  unicode_N :: "nat \<Rightarrow> bool"
  buildSystemPrompt :: jsstring

definition is_word_char :: "nat \<Rightarrow> bool" where
  "is_word_char c =
     ((48 \<le> c \<and> c \<le> 57) \<or> (65 \<le> c \<and> c \<le> 90) \<or> c = 95 \<or> (97 \<le> c \<and> c \<le> 122))"

definition allowed_code_point :: "'a runtime_scheme \<Rightarrow> nat \<Rightarrow> bool" where
  "allowed_code_point rt cp =
     (is_word_char cp \<or> is_js_space cp \<or> unicode_L rt cp \<or> unicode_N rt cp
      \<or> cp \<in> {63, 33, 46, 44, 59, 58, 40, 41, 45})"

definition is_high_surrogate :: "nat \<Rightarrow> bool" where
  "is_high_surrogate c = (55296 \<le> c \<and> c \<le> 56319)"

definition is_low_surrogate :: "nat \<Rightarrow> bool" where
  "is_low_surrogate c = (56320 \<le> c \<and> c \<le> 57343)"

definition surrogate_pair :: "nat \<Rightarrow> nat \<Rightarrow> nat" where
  "surrogate_pair h l = 65536 + (h - 55296) * 1024 + (l - 56320)"

fun strip_disallowed :: "'a runtime_scheme \<Rightarrow> jsstring \<Rightarrow> jsstring" where
  "strip_disallowed rt [] = []"
| "strip_disallowed rt [c] = (if allowed_code_point rt c then [c] else [])"
| "strip_disallowed rt (h # l # cs) =
     (if is_high_surrogate h \<and> is_low_surrogate l
      then (if allowed_code_point rt (surrogate_pair h l)
            then h # l # strip_disallowed rt cs else strip_disallowed rt cs)
      else (if allowed_code_point rt h
            then h # strip_disallowed rt (l # cs) else strip_disallowed rt (l # cs)))"

definition cleanInput :: "'a runtime_scheme \<Rightarrow> jsstring \<Rightarrow> jsstring" where
  "cleanInput rt text = strip_disallowed rt (collapse_spaces (trim text))"

text \<open>
  \<open>replace(/\n{3,}/g, '\n\n')\<close>: the expression is greedy, so it matches every maximal
  run of three or more LINE FEEDs, and each such run becomes two LINE FEEDs; a run of one
  or two is not matched.
\<close>

function collapse_newlines :: "jsstring \<Rightarrow> jsstring" where
  "collapse_newlines [] = []"
| "collapse_newlines (c # cs) =
     (if c = 10 then
        (let run = takeWhile (\<lambda>x. x = 10) (c # cs)
         in (if 3 \<le> length run then [10, 10] else run)
            @ collapse_newlines (dropWhile (\<lambda>x. x = 10) cs))
      else c # collapse_newlines cs)"
  by pat_completeness auto
termination
  by (relation "measure length") (auto simp: le_imp_less_Suc length_dropWhile_le)

definition cleanOutput :: "jsstring \<Rightarrow> jsstring" where
  "cleanOutput text = collapse_newlines (trim text)"

text \<open>
  The output hygiene as the specification words it: a blank line is an empty line, so a
  run of \<open>k\<close> blank lines inside a text is a run of \<open>k + 1\<close> LINE FEEDs; runs of three or
  more blank lines (four or more LINE FEEDs) become a single blank line (two LINE FEEDs),
  and nothing else changes.
\<close>

function collapse_blank_lines_spec :: "jsstring \<Rightarrow> jsstring" where
  "collapse_blank_lines_spec [] = []"
| "collapse_blank_lines_spec (c # cs) =
     (if c = 10 then
        (let run = takeWhile (\<lambda>x. x = 10) (c # cs)
         in (if 4 \<le> length run then [10, 10] else run)
            @ collapse_blank_lines_spec (dropWhile (\<lambda>x. x = 10) cs))
      else c # collapse_blank_lines_spec cs)"
  by pat_completeness auto
termination
  by (relation "measure length") (auto simp: le_imp_less_Suc length_dropWhile_le)

definition cleanOutput_spec :: "jsstring \<Rightarrow> jsstring" where
  "cleanOutput_spec text = collapse_blank_lines_spec (trim text)"

text \<open>The decimal numeral of a non-negative integer, as a template literal renders it.\<close>

fun decimal :: "nat \<Rightarrow> jsstring" where
  "decimal n = (if n < 10 then [48 + n] else decimal (n div 10) @ [48 + n mod 10])"

declare decimal.simps [simp del]

section \<open>The dispatch engine: \<open>AIProcessor.processMessage\<close>\<close>

subsection \<open>Collaborators\<close>

text \<open>
  The command handler, the completion client and the registry protocol are classes of
  other modules; the processor only calls them. Each is a record of functions from the
  arguments of a call to its outcome. A call that throws, or whose promise rejects, has
  the thrown value as outcome (\<open>Inl\<close>).

  A thrown value is caught as \<open>error: any\<close>, and the two handlers evaluate expressions
  on it that can themselves throw. What the handlers do with a value they have read is
  test it in \<open>a || b\<close> and convert it to a string in a template literal, so a value is
  its truthiness together with the string a template literal converts it to, if the
  conversion returns (it throws a TypeError on a Symbol and on an object without a
  primitive conversion).
\<close>

record js_value =
  truthy :: bool
  template_string :: "jsstring option"

definition js_undefined :: js_value where
  "js_undefined = \<lparr>truthy = False, template_string = Some (ascii ''undefined'')\<rparr>"

definition js_string :: "jsstring \<Rightarrow> js_value" where
  "js_string s = \<lparr>truthy = (s \<noteq> []), template_string = Some s\<rparr>"

definition js_symbol :: js_value where
  "js_symbol = \<lparr>truthy = True, template_string = None\<rparr>"

text \<open>
  A caught value is \<open>null\<close> or \<open>undefined\<close>, on which every property read throws, or it is
  given by the outcome of each expression the handlers evaluate on it, \<open>None\<close> when the
  evaluation throws: \<open>error.response?.data?.error?.message\<close>,
  \<open>error.response?.data?.message\<close>, \<open>error.message\<close>, \<open>String(error)\<close>, and the two
  calls of \<open>console.error\<close>, the one of the command handler, on the value itself, and
  the one of the completion handler, on the detail and on \<open>error.response?.status\<close>.
  A property that is absent reads as \<open>js_undefined\<close>.
\<close>

record js_error =
  response_data_error_message :: "js_value option"
  response_data_message :: "js_value option"
  error_message :: "js_value option"
  error_string :: "jsstring option"
  command_log :: bool
  completion_log :: bool

datatype thrown = Nullish | Thrown js_error

datatype role = User | Assistant

record ChatMessage =
  role :: role
  content :: jsstring

record CommandResult =
  message :: jsstring
  success :: bool

record SolanaCommandHandler =
  isSolanaCommand :: "jsstring \<Rightarrow> thrown + bool"
  handleCommand :: "jsstring \<Rightarrow> thrown + CommandResult"

text \<open>
  \<open>recordTask\<close> is called as \<open>await sapProtocol.recordTask(...).catch(() => {})\<close>: the
  call throws before it returns, or it returns a promise, and a promise settles in one
  of two ways.
\<close>

datatype settled = Fulfilled | Rejected thrown

record SAPProtocol =
  recordTask :: "jsstring \<Rightarrow> jsstring \<Rightarrow> bool \<Rightarrow> thrown + settled"

record AIModel =
  generateChat :: "jsstring \<Rightarrow> ChatMessage list \<Rightarrow> thrown + jsstring"

subsection \<open>The processor\<close>

record ProcessorConfig =
  maxInputLength :: "nat option"
  systemPrompt :: "jsstring option"
  enableSolana :: "bool option"
  sapProtocol :: "SAPProtocol option"

record AIProcessor =
  model :: AIModel
  config :: ProcessorConfig
  solanaHandler :: "SolanaCommandHandler option"

text \<open>
  The constructor builds \<open>this.config\<close> as
  \<open>{maxInputLength: 2000, systemPrompt: buildSystemPrompt(), enableSolana: false, ...config}\<close>.
  The spread copies every property the given object has, also one whose value is
  \<open>undefined\<close>, over the default; the default stays only where the object has no such
  property. So a property of the given object is absent, present with the value
  \<open>undefined\<close>, or present with a value. The command handler exists only when
  \<open>enableSolana\<close> is then truthy. The model and the handler are built by constructors of
  other modules and are given here as built.
\<close>

datatype 'a property = Absent | Undefined | Value 'a

record ProcessorConfigArg =
  maxInputLength_given :: "nat property"
  systemPrompt_given :: "jsstring property"
  enableSolana_given :: "bool property"
  sapProtocol_given :: "SAPProtocol property"

text \<open>\<open>{k: d, ...config}.k\<close> and \<open>{...config}.k\<close>; \<open>None\<close> is \<open>undefined\<close>.\<close>

definition spread_over :: "'a \<Rightarrow> 'a property \<Rightarrow> 'a option" where
  "spread_over d v = (case v of Absent \<Rightarrow> Some d | Undefined \<Rightarrow> None | Value x \<Rightarrow> Some x)"

definition spread :: "'a property \<Rightarrow> 'a option" where
  "spread v = (case v of Absent \<Rightarrow> None | Undefined \<Rightarrow> None | Value x \<Rightarrow> Some x)"

definition new_AIProcessor ::
  "'a runtime_scheme \<Rightarrow> AIModel \<Rightarrow> SolanaCommandHandler \<Rightarrow> ProcessorConfigArg \<Rightarrow> AIProcessor" where
  "new_AIProcessor rt mdl handler cfg =
     (let cfg' = \<lparr>maxInputLength = spread_over 2000 (maxInputLength_given cfg),
                  systemPrompt = spread_over (buildSystemPrompt rt) (systemPrompt_given cfg),
                  enableSolana = spread_over False (enableSolana_given cfg),
                  sapProtocol = spread (sapProtocol_given cfg)\<rparr>
      in \<lparr>model = mdl, config = cfg',
          solanaHandler = (if enableSolana cfg' = Some True then Some handler else None)\<rparr>)"

text \<open>
  What one call of \<open>processMessage\<close> does to its collaborators, in order, and how its
  promise settles: \<open>Inr\<close> the text it resolves to, \<open>Inl\<close> the reason it rejects with.
\<close>

datatype event =
    IsSolanaCommand jsstring
  | HandleCommand jsstring
  | RecordTask jsstring jsstring bool
  | GenerateChat jsstring "ChatMessage list"

datatype rejection = Propagated thrown | ThrownInHandler

text \<open>
  The fixed texts of the source: a request for a non-empty message (Pozhaluysta,
  otprav'te nepustoe soobshchenie.), the length guidance (Soobshchenie slishkom
  dlinnoe. Maksimum N simvolov.) and the prefix of a failed command (Oshibka vypolneniya
  Solana komandy: ).
\<close>

definition msg_empty :: jsstring where
  "msg_empty = [1055, 1086, 1078, 1072, 1083, 1091, 1081, 1089, 1090, 1072, 44, 32, 1086,
     1090, 1087, 1088, 1072, 1074, 1100, 1090, 1077, 32, 1085, 1077, 1087, 1091, 1089, 1090,
     1086, 1077, 32, 1089, 1086, 1086, 1073, 1097, 1077, 1085, 1080, 1077, 46]"

definition msg_too_long :: "nat \<Rightarrow> jsstring" where
  "msg_too_long n = [1057, 1086, 1086, 1073, 1097, 1077, 1085, 1080, 1077, 32, 1089, 1083,
     1080, 1096, 1082, 1086, 1084, 32, 1076, 1083, 1080, 1085, 1085, 1086, 1077, 46, 32, 1052,
     1072, 1082, 1089, 1080, 1084, 1091, 1084, 32] @ decimal n
     @ [32, 1089, 1080, 1084, 1074, 1086, 1083, 1086, 1074, 46]"

definition msg_command_failed :: jsstring where
  "msg_command_failed = [1054, 1096, 1080, 1073, 1082, 1072, 32, 1074, 1099, 1087, 1086,
     1083, 1085, 1077, 1085, 1080, 1103, 32, 83, 111, 108, 97, 110, 97, 32, 1082, 1086, 1084,
     1072, 1085, 1076, 1099, 58, 32]"

text \<open>
  The handler of the command path logs the value, reads \<open>error.message\<close> and converts
  it in a template literal. Whatever throws inside the handler rejects the promise.
\<close>

definition command_error :: "thrown \<Rightarrow> rejection + jsstring" where
  "command_error error =
     (case error of
        Nullish \<Rightarrow> Inl ThrownInHandler
      | Thrown e \<Rightarrow>
          if \<not> command_log e then Inl ThrownInHandler
          else
            (case error_message e of
               None \<Rightarrow> Inl ThrownInHandler
             | Some v \<Rightarrow>
                 (case template_string v of
                    None \<Rightarrow> Inl ThrownInHandler
                  | Some t \<Rightarrow> Inr (msg_command_failed @ t))))"

text \<open>
  \<open>a || b\<close>: \<open>a\<close> when it is truthy, \<open>b\<close> otherwise; \<open>undefined\<close> and the empty string
  are falsy.
\<close>

definition or_else :: "jsstring option \<Rightarrow> jsstring \<Rightarrow> jsstring" where
  "or_else v d = (case v of None \<Rightarrow> d | Some s \<Rightarrow> if s = [] then d else s)"

text \<open>
  The detail of the completion handler: the operands of the chain of \<open>||\<close> are
  evaluated from the left until one is truthy; \<open>String(error)\<close> is the last. \<open>None\<close>
  when an evaluation throws.
\<close>

definition error_detail :: "js_error \<Rightarrow> js_value option" where
  "error_detail e =
     (case response_data_error_message e of
        None \<Rightarrow> None
      | Some a \<Rightarrow>
          if truthy a then Some a
          else
            (case response_data_message e of
               None \<Rightarrow> None
             | Some b \<Rightarrow>
                 if truthy b then Some b
                 else
                   (case error_message e of
                      None \<Rightarrow> None
                    | Some c \<Rightarrow>
                        if truthy c then Some c
                        else map_option js_string (error_string e))))"

text \<open>
  The handler of the completion path forms the detail, logs it, and converts it in a
  template literal.
\<close>

definition completion_error :: "thrown \<Rightarrow> rejection + jsstring" where
  "completion_error error =
     (case error of
        Nullish \<Rightarrow> Inl ThrownInHandler
      | Thrown e \<Rightarrow>
          (case error_detail e of
             None \<Rightarrow> Inl ThrownInHandler
           | Some d \<Rightarrow>
               if \<not> completion_log e then Inl ThrownInHandler
               else
                 (case template_string d of
                    None \<Rightarrow> Inl ThrownInHandler
                  | Some t \<Rightarrow> Inr (ascii ''Error: '' @ t))))"



text \<open>\<open>p.catch(() => {})\<close>: a promise that fulfils whichever way \<open>p\<close> settles.\<close>

definition catch_ignore :: "settled \<Rightarrow> settled" where
  "catch_ignore p = (case p of Fulfilled \<Rightarrow> Fulfilled | Rejected e \<Rightarrow> Fulfilled)"

text \<open>\<open>xs.slice(-n)\<close>: the last \<open>n\<close> elements, all of them when there are fewer.\<close>

definition slice_last :: "nat \<Rightarrow> 'a list \<Rightarrow> 'a list" where
  "slice_last n xs = drop (length xs - n) xs"

text \<open>
  The command path: the body of the first \<open>if\<close>, inside its \<open>try\<close>. A call that throws
  and an \<open>await\<close> of a rejected promise both throw into the \<open>catch\<close>.
\<close>

definition command_path ::
  "'a runtime_scheme \<Rightarrow> AIProcessor \<Rightarrow> SolanaCommandHandler \<Rightarrow> jsstring
     \<Rightarrow> event list \<times> (rejection + jsstring)" where
  "command_path rt p h msg =
     (case handleCommand h msg of
        Inl error \<Rightarrow> ([HandleCommand msg], command_error error)
      | Inr result \<Rightarrow>
          (case sapProtocol (config p) of
             None \<Rightarrow> ([HandleCommand msg], Inr (message result))
           | Some sap \<Rightarrow>
               (let skillName = detectSkillName (toLowerCase rt) msg in
                if skillName \<noteq> [] then
                  (case recordTask sap (take 80 msg) skillName (success result) of
                     Inl error \<Rightarrow>
                       ([HandleCommand msg, RecordTask (take 80 msg) skillName (success result)],
                        command_error error)
                   | Inr promise \<Rightarrow>
                       (case catch_ignore promise of
                          Fulfilled \<Rightarrow>
                            ([HandleCommand msg,
                              RecordTask (take 80 msg) skillName (success result)],
                             Inr (message result))
                        | Rejected error \<Rightarrow>
                            ([HandleCommand msg,
                              RecordTask (take 80 msg) skillName (success result)],
                             command_error error)))
                else ([HandleCommand msg], Inr (message result)))))"

text \<open>
  The rest of the body: input hygiene, then the completion inside the second \<open>try\<close>.
  \<open>length > undefined\<close> is false, so without a maximum no input is too long.
\<close>

text \<open>\<open>history || []\<close>: the turns supplied, none when the argument is absent.\<close>

definition or_empty :: "ChatMessage list option \<Rightarrow> ChatMessage list" where
  "or_empty history = (case history of None \<Rightarrow> [] | Some h \<Rightarrow> h)"

definition submit ::
  "'a runtime_scheme \<Rightarrow> AIProcessor \<Rightarrow> jsstring \<Rightarrow> ChatMessage list option
     \<Rightarrow> event list \<times> (rejection + jsstring)" where
  "submit rt p cleanedMessage history =
     (let messages =
            map (\<lambda>m. \<lparr>role = role m, content = content m\<rparr>)
              (slice_last 10 (or_empty history))
            @ [\<lparr>role = User, content = cleanedMessage\<rparr>];
          prompt = or_else (systemPrompt (config p)) (buildSystemPrompt rt)
      in ([GenerateChat prompt messages],
          (case generateChat (model p) prompt messages of
             Inr response \<Rightarrow> Inr (cleanOutput response)
           | Inl error \<Rightarrow> completion_error error)))"

definition completion_path ::
  "'a runtime_scheme \<Rightarrow> AIProcessor \<Rightarrow> jsstring \<Rightarrow> ChatMessage list option
     \<Rightarrow> event list \<times> (rejection + jsstring)" where
  "completion_path rt p msg history =
     (let cleanedMessage = cleanInput rt msg in
      if cleanedMessage = [] then ([], Inr msg_empty)
      else
        (case maxInputLength (config p) of
           None \<Rightarrow> submit rt p cleanedMessage history
         | Some n \<Rightarrow>
             if n < length cleanedMessage then ([], Inr (msg_too_long n))
             else submit rt p cleanedMessage history))"

definition after :: "event \<Rightarrow> event list \<times> 'a \<Rightarrow> event list \<times> 'a" where
  "after e r = (e # fst r, snd r)"

definition processMessage ::
  "'a runtime_scheme \<Rightarrow> AIProcessor \<Rightarrow> jsstring \<Rightarrow> ChatMessage list option
     \<Rightarrow> event list \<times> (rejection + jsstring)" where
  "processMessage rt p msg history =
     (case solanaHandler p of
        None \<Rightarrow> completion_path rt p msg history
      | Some h \<Rightarrow>
          (case isSolanaCommand h msg of
             Inl error \<Rightarrow> ([IsSolanaCommand msg], Inl (Propagated error))
           | Inr recognised \<Rightarrow>
               after (IsSolanaCommand msg)
                 (if recognised then command_path rt p h msg
                  else completion_path rt p msg history)))"

subsection \<open>The paths of a call\<close>

text \<open>
  A message is declined when it is not routed down the command path: there is no command
  handler, or the handler's recogniser returns false. The recogniser is consulted
  whenever a handler exists.
\<close>

definition declined :: "AIProcessor \<Rightarrow> jsstring \<Rightarrow> bool" where
  "declined p msg = (case solanaHandler p of None \<Rightarrow> True | Some h \<Rightarrow> isSolanaCommand h msg = Inr False)"

definition recognition :: "AIProcessor \<Rightarrow> jsstring \<Rightarrow> event list" where
  "recognition p msg = (case solanaHandler p of None \<Rightarrow> [] | Some h \<Rightarrow> [IsSolanaCommand msg])"


text \<open>The cleaned message passes the length check.\<close>

definition within_limit :: "AIProcessor \<Rightarrow> jsstring \<Rightarrow> bool" where
  "within_limit p s = (case maxInputLength (config p) of None \<Rightarrow> True | Some n \<Rightarrow> length s \<le> n)"

section \<open>The profile manager: \<open>AgentProfileManager\<close>\<close>

text \<open>
  Modelled from the spec: the declaration of \<open>AgentProfile\<close> (the module \<open>./types\<close> is not
  among the sources). The fields are those of the data model of the specification, which
  are also the ones the profile manager reads and writes. A capability is an object: the
  profile holds references to capabilities, in insertion order, and the objects live in a
  store, so that a change made through one reference is seen through every other.
\<close>

type_synonym ref = nat

datatype currency = SOL | USDC

record AgentProfile =
  agent_id :: jsstring
  name :: jsstring
  description :: jsstring
  version :: jsstring
  publicKey :: "jsstring option"
  capabilities :: "ref list"
  reputation :: int
  tasksCompleted :: nat
  successRate :: real
  pricing :: "(real \<times> currency) option"
  createdAt :: nat
  lastActive :: nat

record AgentCapability =
  name :: jsstring
  description :: jsstring
  version :: jsstring
  enabled :: bool

record AgentProfileManager =
  profile :: "AgentProfile option"
  store :: "ref \<Rightarrow> AgentCapability"

definition addCapability :: "AgentProfileManager \<Rightarrow> ref \<Rightarrow> AgentProfileManager" where
  "addCapability mgr capability =
     (case profile mgr of
        None \<Rightarrow> mgr
      | Some p \<Rightarrow> mgr\<lparr>profile := Some (p\<lparr>capabilities := capabilities p @ [capability]\<rparr>)\<rparr>)"

definition toggleCapability ::
  "AgentProfileManager \<Rightarrow> jsstring \<Rightarrow> bool \<Rightarrow> AgentProfileManager" where
  "toggleCapability mgr capabilityName en =
     (case profile mgr of
        None \<Rightarrow> mgr
      | Some p \<Rightarrow>
          (case find (\<lambda>c. name (store mgr c) = capabilityName) (capabilities p) of
             None \<Rightarrow> mgr
           | Some capability \<Rightarrow>
               mgr\<lparr>store := (store mgr)(capability := (store mgr capability)\<lparr>enabled := en\<rparr>)\<rparr>))"

definition getEnabledCapabilities :: "AgentProfileManager \<Rightarrow> ref list" where
  "getEnabledCapabilities mgr =
     (case profile mgr of
        None \<Rightarrow> []
      | Some p \<Rightarrow> filter (\<lambda>c. enabled (store mgr c)) (capabilities p))"

section \<open>The registry: recording task outcomes\<close>

text \<open>
  Modelled from the spec: \<open>AgentRegistry.recordTask\<close> (the module \<open>./registry\<close> is not among
  the sources). The registry maps an agent id to its profile and keeps, beside the
  profile, the running counts of successes and failures. Recording for an unknown id
  changes nothing. Otherwise it increments \<open>tasksCompleted\<close>, recomputes \<open>successRate\<close>
  from the running counts, moves \<open>reputation\<close> by +1 on success and by -2 on failure,
  clamped to the range 0..100, and sets \<open>lastActive\<close>. The success rate is a real number
  here; the rounding of floating-point arithmetic is not modelled.
\<close>

record RegistryEntry =
  entry_profile :: AgentProfile
  successCount :: nat
  failureCount :: nat

type_synonym Registry = "jsstring \<rightharpoonup> RegistryEntry"

definition clamp_reputation :: "int \<Rightarrow> int" where
  "clamp_reputation r = max 0 (min 100 r)"

definition recordTask_spec ::
  "Registry \<Rightarrow> jsstring \<Rightarrow> jsstring \<Rightarrow> jsstring \<Rightarrow> bool \<Rightarrow> nat \<Rightarrow> Registry" where
  "recordTask_spec reg agentId desc skillName ok now =
     (case reg agentId of
        None \<Rightarrow> reg
      | Some e \<Rightarrow>
          (let s = successCount e + (if ok then 1 else 0);
               f = failureCount e + (if ok then 0 else 1);
               p = entry_profile e
           in reg(agentId \<mapsto>
                e\<lparr>entry_profile :=
                     p\<lparr>tasksCompleted := tasksCompleted p + 1,
                       successRate := 100 * real s / real (s + f),
                       reputation := clamp_reputation (reputation p + (if ok then 1 else - 2)),
                       lastActive := now\<rparr>,
                   successCount := s,
                   failureCount := f\<rparr>)))"

text \<open>
  A sequence of recordings for one agent; each call carries its description, its skill
  name, its outcome and the time of the call.
\<close>

fun record_all ::
  "Registry \<Rightarrow> jsstring \<Rightarrow> (jsstring \<times> jsstring \<times> bool \<times> nat) list \<Rightarrow> Registry" where
  "record_all reg agentId [] = reg"
| "record_all reg agentId ((desc, skillName, ok, now) # calls) =
     record_all (recordTask_spec reg agentId desc skillName ok now) agentId calls"

definition successes :: "(jsstring \<times> jsstring \<times> bool \<times> nat) list \<Rightarrow> nat" where
  "successes calls = length (filter (\<lambda>(desc, skillName, ok, now). ok) calls)"

definition failures :: "(jsstring \<times> jsstring \<times> bool \<times> nat) list \<Rightarrow> nat" where
  "failures calls = length (filter (\<lambda>(desc, skillName, ok, now). \<not> ok) calls)"

section \<open>Concrete collaborators\<close>

text \<open>
  Instances of the parameters, for evaluating the model on concrete inputs: a runtime
  whose case mapping and Unicode tables are those of ASCII (right on every text of ASCII
  code units), command handlers that accept every message, decline every message, fail
  on execution, or throw on recognition, a registry whose recording always rejects, and
  a completion client with a fixed reply.
\<close>

definition rt_ascii :: runtime where
  "rt_ascii = \<lparr>toLowerCase = toLowerCase_ascii,
     unicode_L = (\<lambda>cp. (65 \<le> cp \<and> cp \<le> 90) \<or> (97 \<le> cp \<and> cp \<le> 122)),
     unicode_N = (\<lambda>cp. 48 \<le> cp \<and> cp \<le> 57),
     buildSystemPrompt = ascii ''system''\<rparr>"

definition example_error :: js_error where
  "example_error = \<lparr>response_data_error_message = Some js_undefined,
     response_data_message = Some js_undefined,
     error_message = Some (js_string (ascii ''boom'')),
     error_string = Some (ascii ''Error: boom''),
     command_log = True, completion_log = True\<rparr>"

definition handler_accepting :: SolanaCommandHandler where
  "handler_accepting = \<lparr>isSolanaCommand = (\<lambda>m. Inr True),
     handleCommand = (\<lambda>m. Inr \<lparr>message = ascii ''ok'', success = True\<rparr>)\<rparr>"

definition handler_declining :: SolanaCommandHandler where
  "handler_declining = \<lparr>isSolanaCommand = (\<lambda>m. Inr False),
     handleCommand = (\<lambda>m. Inr \<lparr>message = ascii ''ok'', success = True\<rparr>)\<rparr>"

definition handler_failing :: SolanaCommandHandler where
  "handler_failing = \<lparr>isSolanaCommand = (\<lambda>m. Inr True),
     handleCommand = (\<lambda>m. Inl (Thrown example_error))\<rparr>"

definition handler_throwing :: SolanaCommandHandler where
  "handler_throwing = \<lparr>isSolanaCommand = (\<lambda>m. Inl (Thrown example_error)),
     handleCommand = (\<lambda>m. Inr \<lparr>message = ascii ''ok'', success = True\<rparr>)\<rparr>"

definition sap_rejecting :: SAPProtocol where
  "sap_rejecting = \<lparr>recordTask = (\<lambda>d s b. Inr (Rejected (Thrown example_error)))\<rparr>"

definition sap_throwing :: SAPProtocol where
  "sap_throwing = \<lparr>recordTask = (\<lambda>d s b. Inl (Thrown example_error))\<rparr>"

definition config_throwing_registry :: ProcessorConfigArg where
  "config_throwing_registry = \<lparr>maxInputLength_given = Absent, systemPrompt_given = Absent,
     enableSolana_given = Value True, sapProtocol_given = Value sap_throwing\<rparr>"

definition config_undefined_limit :: ProcessorConfigArg where
  "config_undefined_limit = \<lparr>maxInputLength_given = Undefined, systemPrompt_given = Absent,
     enableSolana_given = Absent, sapProtocol_given = Absent\<rparr>"

text \<open>
  Two values on which a handler throws: an object whose \<open>message\<close> is a Symbol, and an
  object without prototype and without properties, which \<open>String\<close> cannot convert.
\<close>

definition error_symbol_message :: js_error where
  "error_symbol_message = example_error\<lparr>error_message := Some js_symbol\<rparr>"

definition error_null_prototype :: js_error where
  "error_null_prototype = \<lparr>response_data_error_message = Some js_undefined,
     response_data_message = Some js_undefined, error_message = Some js_undefined,
     error_string = None, command_log = True, completion_log = True\<rparr>"

definition reply_two_blank_lines :: jsstring where
  "reply_two_blank_lines = ascii ''  a'' @ [10, 10, 10] @ ascii ''b  ''"

definition model_fixed :: AIModel where
  "model_fixed = \<lparr>generateChat = (\<lambda>prompt messages. Inr reply_two_blank_lines)\<rparr>"

definition model_failing :: AIModel where
  "model_failing = \<lparr>generateChat = (\<lambda>prompt messages. Inl (Thrown example_error))\<rparr>"

definition config_with_registry :: ProcessorConfigArg where
  "config_with_registry = \<lparr>maxInputLength_given = Absent, systemPrompt_given = Absent,
     enableSolana_given = Value True, sapProtocol_given = Value sap_rejecting\<rparr>"

definition config_without_registry :: ProcessorConfigArg where
  "config_without_registry = \<lparr>maxInputLength_given = Absent, systemPrompt_given = Absent,
     enableSolana_given = Value True, sapProtocol_given = Absent\<rparr>"

definition config_chat_only :: "nat \<Rightarrow> ProcessorConfigArg" where
  "config_chat_only n = \<lparr>maxInputLength_given = Value n, systemPrompt_given = Absent,
     enableSolana_given = Absent, sapProtocol_given = Absent\<rparr>"

definition config_short_limit :: ProcessorConfigArg where
  "config_short_limit = \<lparr>maxInputLength_given = Value 2, systemPrompt_given = Absent,
     enableSolana_given = Value True, sapProtocol_given = Absent\<rparr>"

definition turn :: "nat \<Rightarrow> ChatMessage" where
  "turn i = \<lparr>role = (if even i then User else Assistant), content = decimal i\<rparr>"

text \<open>
  A freshly registered agent without capabilities, a store in which every reference
  holds an enabled capability named X, a registry that holds this one agent, and three
  recordings: a success, a failure, a success.
\<close>

definition capability_X :: AgentCapability where
  "capability_X = \<lparr>name = ascii ''X'', description = ascii ''example'',
     version = ascii ''1.0.0'', enabled = True\<rparr>"

definition profile_fresh :: AgentProfile where
  "profile_fresh = \<lparr>agent_id = ascii ''agent-1'', AgentProfile.name = ascii ''Solana AI Agent'',
     AgentProfile.description = ascii ''example'', AgentProfile.version = ascii ''1.0.0'',
     publicKey = None, capabilities = [], reputation = 0, tasksCompleted = 0,
     successRate = 100, pricing = None, createdAt = 0, lastActive = 0\<rparr>"

definition manager_fresh :: AgentProfileManager where
  "manager_fresh = \<lparr>profile = Some profile_fresh, store = (\<lambda>r. capability_X)\<rparr>"

definition entry_fresh :: RegistryEntry where
  "entry_fresh = \<lparr>entry_profile = profile_fresh, successCount = 0, failureCount = 0\<rparr>"

definition registry_one :: Registry where
  "registry_one = [ascii ''agent-1'' \<mapsto> entry_fresh]"

definition three_calls :: "(jsstring \<times> jsstring \<times> bool \<times> nat) list" where
  "three_calls = [(ascii ''balance'', ascii ''Balance Checker'', True, 1),
     (ascii ''price'', ascii ''Price Monitor'', False, 2),
     (ascii ''status'', ascii ''Network Status'', True, 3)]"

section \<open>Properties of the string model\<close>

lemma startsWith_iff: "startsWith s kw \<longleftrightarrow> (\<exists>q. s = kw @ q)"
  by (induction s kw rule: startsWith.induct) auto

lemma js_includes_iff: "js_includes s kw \<longleftrightarrow> (\<exists>p q. s = p @ kw @ q)"
proof (induction s)
  case Nil
  then show ?case by auto
next
  case (Cons c cs)
  show ?case
  proof
    assume "js_includes (c # cs) kw"
    then consider "startsWith (c # cs) kw" | "js_includes cs kw" by auto
    then show "\<exists>p q. c # cs = p @ kw @ q"
    proof cases
      case 1
      then obtain q where "c # cs = kw @ q" by (auto simp: startsWith_iff)
      then have "c # cs = [] @ kw @ q" by simp
      then show ?thesis by blast
    next
      case 2
      then obtain p q where "cs = p @ kw @ q" using Cons.IH by blast
      then have "c # cs = (c # p) @ kw @ q" by simp
      then show ?thesis by blast
    qed
  next
    assume "\<exists>p q. c # cs = p @ kw @ q"
    then obtain p q where pq: "c # cs = p @ kw @ q" by blast
    show "js_includes (c # cs) kw"
    proof (cases p)
      case Nil
      then have "startsWith (c # cs) kw" using pq by (auto simp: startsWith_iff)
      then show ?thesis by simp
    next
      case (Cons a p')
      then have "cs = p' @ kw @ q" using pq by simp
      then have "js_includes cs kw" using Cons.IH by blast
      then show ?thesis by simp
    qed
  qed
qed

section \<open>The classifier resolves to the first matching rule\<close>

text \<open>
  Claim C1. For every input whose lower-cased form contains a balance keyword and a price
  keyword, \<open>detectSkillName\<close> returns the tag Balance Checker; and for every input the
  tag returned is the tag of the first rule, in the order balance, transaction, price,
  network, one of whose keywords occurs in the lower-cased input, or the empty tag when
  no rule matches.
\<close>

theorem detectSkillName_first_match:
  "detectSkillName lc msg = first_match_spec skill_rules (lc msg)
   \<and> (kb \<in> set balance_keywords \<and> kp \<in> set price_keywords
        \<and> js_includes (lc msg) kb \<and> js_includes (lc msg) kp
        \<longrightarrow> detectSkillName lc msg = ascii ''Balance Checker'')"
  by (auto simp: detectSkillName_def first_match_spec_def skill_rules_def rule_matches_def
      balance_keywords_def transaction_keywords_def price_keywords_def network_keywords_def
      Let_def)

theorem detectSkillName_first_match_witness:
  "ascii ''balance'' \<in> set balance_keywords \<and> ascii ''price'' \<in> set price_keywords
   \<and> js_includes (toLowerCase_ascii (ascii ''Price of my BALANCE'')) (ascii ''balance'')
   \<and> js_includes (toLowerCase_ascii (ascii ''Price of my BALANCE'')) (ascii ''price'')
   \<and> detectSkillName toLowerCase_ascii (ascii ''Price of my BALANCE'') = ascii ''Balance Checker''
   \<and> first_match_spec skill_rules (toLowerCase_ascii (ascii ''Price of my BALANCE''))
       = ascii ''Balance Checker''"
proof -
  have kb: "ascii ''balance'' \<in> set balance_keywords"
    by (simp add: balance_keywords_def)
  have kp: "ascii ''price'' \<in> set price_keywords"
    by (simp add: price_keywords_def)
  have ib: "js_includes (toLowerCase_ascii (ascii ''Price of my BALANCE'')) (ascii ''balance'')"
    by (simp add: toLowerCase_ascii_def ascii_def)
  have ip: "js_includes (toLowerCase_ascii (ascii ''Price of my BALANCE'')) (ascii ''price'')"
    by (simp add: toLowerCase_ascii_def ascii_def)
  note inst = detectSkillName_first_match
    [of toLowerCase_ascii "ascii ''Price of my BALANCE''" "ascii ''balance''" "ascii ''price''"]
  from inst kb kp ib ip
  have tag: "detectSkillName toLowerCase_ascii (ascii ''Price of my BALANCE'')
    = ascii ''Balance Checker''"
    by blast
  from inst have "first_match_spec skill_rules (toLowerCase_ascii (ascii ''Price of my BALANCE''))
    = detectSkillName toLowerCase_ascii (ascii ''Price of my BALANCE'')"
    by simp
  with tag kb kp ib ip show ?thesis by simp
qed

section \<open>The command path\<close>

lemmas example_defs = rt_ascii_def example_error_def handler_accepting_def
  handler_declining_def handler_failing_def handler_throwing_def sap_rejecting_def
  model_fixed_def model_failing_def config_with_registry_def config_without_registry_def
  sap_throwing_def config_throwing_registry_def config_undefined_limit_def
  config_chat_only_def config_short_limit_def new_AIProcessor_def reply_two_blank_lines_def
  spread_over_def spread_def js_undefined_def js_string_def

lemmas dispatch_defs = processMessage_def command_path_def completion_path_def submit_def
  after_def catch_ignore_def

lemma is_js_space_simps [simp]:
  "is_js_space 32" "is_js_space 10" "\<not> is_js_space 97" "\<not> is_js_space 98"
  by (simp_all add: is_js_space_def)

lemma detect_balance: "detectSkillName toLowerCase_ascii (ascii ''balance'') = ascii ''Balance Checker''"
  by (simp add: detectSkillName_def toLowerCase_ascii_def ascii_def)

text \<open>
  The recording is guarded by \<open>if (this.config.sapProtocol)\<close>: a processor with a command
  handler and no registry runs the command, classifies nothing and records nothing, even
  for a message the classifier would tag.
\<close>

theorem command_path_without_registry_counterexample:
  "detectSkillName (toLowerCase rt_ascii) (ascii ''balance'') = ascii ''Balance Checker''
   \<and> isSolanaCommand handler_accepting (ascii ''balance'') = Inr True
   \<and> processMessage rt_ascii
        (new_AIProcessor rt_ascii model_fixed handler_accepting config_without_registry)
        (ascii ''balance'') None
      = ([IsSolanaCommand (ascii ''balance''), HandleCommand (ascii ''balance'')],
         Inr (ascii ''ok''))"
  by (simp add: example_defs dispatch_defs detect_balance)

text \<open>
  Claim C2, amended. For every message routed down the command path whose execution
  returns a result, if a registry is configured and the classifier gives a non-empty tag
  for the original message, then \<open>recordTask\<close> is called once, with the first 80 code
  units of the message, that tag and the success flag of the result; and however the
  promise that call returns settles, \<open>processMessage\<close> resolves to the message of the
  result, unchanged.
\<close>

theorem command_path_records_task:
  assumes "solanaHandler p = Some h"
    and "isSolanaCommand h msg = Inr True"
    and "handleCommand h msg = Inr result"
    and "sapProtocol (config p) = Some sap"
    and "detectSkillName (toLowerCase rt) msg = tag"
    and "tag \<noteq> []"
    and "recordTask sap (take 80 msg) tag (success result) = Inr outcome"
  shows "processMessage rt p msg history =
           ([IsSolanaCommand msg, HandleCommand msg, RecordTask (take 80 msg) tag (success result)],
            Inr (message result))
         \<and> length (take 80 msg) \<le> 80 \<and> take 80 msg @ drop 80 msg = msg"
  using assms
  by (simp add: dispatch_defs Let_def split: settled.splits)

theorem command_path_records_task_witness:
  "solanaHandler (new_AIProcessor rt_ascii model_fixed handler_accepting config_with_registry)
     = Some handler_accepting
   \<and> isSolanaCommand handler_accepting (ascii ''balance'') = Inr True
   \<and> handleCommand handler_accepting (ascii ''balance'')
       = Inr \<lparr>message = ascii ''ok'', success = True\<rparr>
   \<and> sapProtocol (config (new_AIProcessor rt_ascii model_fixed handler_accepting
         config_with_registry)) = Some sap_rejecting
   \<and> detectSkillName (toLowerCase rt_ascii) (ascii ''balance'') = ascii ''Balance Checker''
   \<and> ascii ''Balance Checker'' \<noteq> []
   \<and> recordTask sap_rejecting (take 80 (ascii ''balance'')) (ascii ''Balance Checker'') True
       = Inr (Rejected (Thrown example_error))
   \<and> processMessage rt_ascii
        (new_AIProcessor rt_ascii model_fixed handler_accepting config_with_registry)
        (ascii ''balance'') None
      = ([IsSolanaCommand (ascii ''balance''), HandleCommand (ascii ''balance''),
          RecordTask (ascii ''balance'') (ascii ''Balance Checker'') True],
         Inr (ascii ''ok''))"
proof -
  let ?p = "new_AIProcessor rt_ascii model_fixed handler_accepting config_with_registry"
  have h1: "solanaHandler ?p = Some handler_accepting"
    by (simp add: example_defs)
  have h2: "isSolanaCommand handler_accepting (ascii ''balance'') = Inr True"
    by (simp add: example_defs)
  have h3: "handleCommand handler_accepting (ascii ''balance'')
       = Inr \<lparr>message = ascii ''ok'', success = True\<rparr>"
    by (simp add: example_defs)
  have h4: "sapProtocol (config ?p) = Some sap_rejecting"
    by (simp add: example_defs)
  have h5: "detectSkillName (toLowerCase rt_ascii) (ascii ''balance'') = ascii ''Balance Checker''"
    by (simp add: rt_ascii_def detect_balance)
  have h6: "ascii ''Balance Checker'' \<noteq> []"
    by (simp add: ascii_def)
  have h7: "recordTask sap_rejecting (take 80 (ascii ''balance'')) (ascii ''Balance Checker'')
       (success \<lparr>message = ascii ''ok'', success = True\<rparr>)
       = Inr (Rejected (Thrown example_error))"
    by (simp add: example_defs)
  have t: "take 80 (ascii ''balance'') = ascii ''balance''"
    by (simp add: ascii_def)
  from command_path_records_task [OF h1 h2 h3 h4 h5 h6 h7, of None] h1 h2 h3 h4 h5 h6 h7 t
  show ?thesis by simp
qed

section \<open>Every failure caught by the processor becomes a text\<close>











lemma command_path_no_completion:
  "GenerateChat prompt ms \<notin> set (fst (command_path rt p h msg))"
  by (auto simp: command_path_def catch_ignore_def Let_def
      split: sum.splits option.splits settled.splits)



text \<open>
  The handlers themselves can throw: the command handler on a Symbol-valued message, the
  completion handler on a value \<open>String\<close> cannot convert, both on \<open>null\<close> and
  \<open>undefined\<close>.
\<close>

lemma command_error_symbol_message:
  "command_error (Thrown error_symbol_message) = Inl ThrownInHandler"
  by (simp add: command_error_def error_symbol_message_def example_error_def js_symbol_def)

lemma completion_error_null_prototype:
  "completion_error (Thrown error_null_prototype) = Inl ThrownInHandler"
  by (simp add: completion_error_def error_detail_def error_null_prototype_def
      js_undefined_def)

lemma handlers_nullish:
  "command_error Nullish = Inl ThrownInHandler \<and> completion_error Nullish = Inl ThrownInHandler"
  by (simp add: command_error_def completion_error_def)





section \<open>The command path comes before the input hygiene\<close>








section \<open>Input hygiene on the completion path\<close>

lemma declined_processMessage:
  "declined p msg \<Longrightarrow>
   processMessage rt p msg history
     = (recognition p msg @ fst (completion_path rt p msg history),
        snd (completion_path rt p msg history))"
  by (auto simp: declined_def recognition_def processMessage_def after_def split: option.splits)

lemma trim_whitespace: "\<forall>c\<in>set s. is_js_space c \<Longrightarrow> trim s = []"
proof -
  assume "\<forall>c\<in>set s. is_js_space c"
  then have d: "dropWhile is_js_space s = []" by simp
  show ?thesis unfolding trim_def d by simp
qed

lemma cleanInput_whitespace: "\<forall>c\<in>set s. is_js_space c \<Longrightarrow> cleanInput rt s = []"
  by (simp add: cleanInput_def trim_whitespace)

lemma js_includes_subset: "js_includes s kw \<Longrightarrow> set kw \<subseteq> set s"
  by (auto simp: js_includes_iff)

lemma whitespace_no_keyword:
  assumes "\<forall>c\<in>set s. is_js_space c" and "\<exists>k\<in>set kw. \<not> is_js_space k"
  shows "\<not> js_includes s kw"
  using assms js_includes_subset [of s kw] by blast

lemma keywords_not_blank:
  "\<forall>r\<in>set skill_rules. \<forall>kw\<in>set (fst r). \<exists>k\<in>set kw. \<not> is_js_space k"
  by (simp add: skill_rules_def balance_keywords_def transaction_keywords_def
      price_keywords_def network_keywords_def kw_balans_def kw_koshelek_def kw_koshelyok_def
      kw_tranzakts_def kw_istoriya_def kw_tsen_def kw_kurs_def kw_set_def kw_status_ru_def
      ascii_def is_js_space_def)

lemma first_match_spec_none:
  "\<forall>r\<in>set rules. \<not> rule_matches lower r \<Longrightarrow> first_match_spec rules lower = []"
  by (simp add: first_match_spec_def find_None_iff2 [THEN iffD2] split: option.splits)
     (metis find_Some_iff nth_mem)

lemma detectSkillName_eq_spec:
  "detectSkillName lc s = first_match_spec skill_rules (lc s)"
  by (auto simp: detectSkillName_def first_match_spec_def skill_rules_def rule_matches_def
      balance_keywords_def transaction_keywords_def price_keywords_def network_keywords_def
      Let_def)

lemma detectSkillName_whitespace:
  assumes "\<forall>c\<in>set (lc s). is_js_space c"
  shows "detectSkillName lc s = []"
proof -
  have "\<forall>r\<in>set skill_rules. \<not> rule_matches (lc s) r"
    using keywords_not_blank whitespace_no_keyword [OF assms]
    by (auto simp: rule_matches_def list_ex_iff)
  then show ?thesis
    by (simp add: detectSkillName_eq_spec first_match_spec_none)
qed




lemma cleanInput_abc: "cleanInput rt_ascii (ascii ''abc'') = ascii ''abc''"
  by (simp add: cleanInput_def trim_def ascii_def rt_ascii_def allowed_code_point_def
        is_word_char_def is_high_surrogate_def is_js_space_def)

lemma cleanOutput_reply: "cleanOutput reply_two_blank_lines = ascii ''a'' @ [10, 10] @ ascii ''b''"
  by (simp add: cleanOutput_def trim_def ascii_def reply_two_blank_lines_def is_js_space_def)





lemma undefined_maxInputLength:
  "maxInputLength (config (new_AIProcessor rt mdl handler
      (cfg\<lparr>maxInputLength_given := Undefined\<rparr>))) = None"
  by (simp add: new_AIProcessor_def spread_over_def Let_def)

lemma completion_path_no_limit:
  assumes "maxInputLength (config p) = None" and "cleanInput rt msg \<noteq> []"
  shows "completion_path rt p msg history = submit rt p (cleanInput rt msg) history"
  using assms by (simp add: completion_path_def Let_def)




text \<open>
  A white-space message that the command handler recognises is executed like any
  other recognised message, and the result of the command is returned.
\<close>

theorem empty_guidance_counterexample:
  "is_js_space 32
   \<and> processMessage rt_ascii
        (new_AIProcessor rt_ascii model_fixed handler_accepting config_with_registry)
        [32, 32, 32] None
      = ([IsSolanaCommand [32, 32, 32], HandleCommand [32, 32, 32]], Inr (ascii ''ok''))
   \<and> ascii ''ok'' \<noteq> msg_empty"
proof -
  let ?p = "new_AIProcessor rt_ascii model_fixed handler_accepting config_with_registry"
  have t: "detectSkillName (toLowerCase rt_ascii) [32, 32, 32] = []"
    by (rule detectSkillName_whitespace) (simp add: rt_ascii_def toLowerCase_ascii_def)
  have h: "solanaHandler ?p = Some handler_accepting" by (simp add: example_defs)
  have r: "sapProtocol (config ?p) = Some sap_rejecting" by (simp add: example_defs)
  have "processMessage rt_ascii ?p [32, 32, 32] None
      = ([IsSolanaCommand [32, 32, 32], HandleCommand [32, 32, 32]], Inr (ascii ''ok''))"
  proof -
    have i: "isSolanaCommand handler_accepting [32, 32, 32] = Inr True"
      and e: "handleCommand handler_accepting [32, 32, 32]
        = Inr \<lparr>message = ascii ''ok'', success = True\<rparr>"
      by (simp_all add: handler_accepting_def)
    show ?thesis
      by (simp add: processMessage_def h i after_def command_path_def e r t)
  qed
  moreover have "ascii ''ok'' \<noteq> msg_empty" by (simp add: msg_empty_def ascii_def)
  ultimately show ?thesis by simp
qed

text \<open>
  Claim C5, amended. For the empty string and every white-space-only message: when the
  message is not routed down the command path, \<open>processMessage\<close> returns the request for
  a non-empty message and calls no collaborator besides the recogniser; and on either
  path it makes no \<open>recordTask\<close> call (lower-casing leaves white space as it is).
\<close>

theorem empty_guidance:
  assumes "\<forall>c\<in>set msg. is_js_space c"
  shows "(declined p msg \<longrightarrow>
            processMessage rt p msg history = (recognition p msg, Inr msg_empty))
    \<and> (toLowerCase rt msg = msg \<longrightarrow>
            (\<forall>d s b. RecordTask d s b \<notin> set (fst (processMessage rt p msg history))))"
proof -
  have a: "declined p msg \<longrightarrow>
            processMessage rt p msg history = (recognition p msg, Inr msg_empty)"
    using assms
    by (simp add: declined_processMessage completion_path_def cleanInput_whitespace)
  have b: "RecordTask d s b \<notin> set (fst (processMessage rt p msg history))"
    if lc: "toLowerCase rt msg = msg" for d s b
  proof -
    from assms lc have t: "detectSkillName (toLowerCase rt) msg = []"
      by (simp add: detectSkillName_whitespace)
    have c: "RecordTask d s b \<notin> set (fst (completion_path rt p msg history))"
      using assms by (simp add: completion_path_def cleanInput_whitespace)
    have e: "RecordTask d s b \<notin> set (fst (command_path rt p h msg))" for h
      using t by (auto simp: command_path_def Let_def split: sum.splits option.splits)
    show ?thesis
      using c e
      by (auto simp: processMessage_def after_def split: option.splits sum.splits)
  qed
  from a b show ?thesis by blast
qed

theorem empty_guidance_witness:
  "processMessage rt_ascii
        (new_AIProcessor rt_ascii model_fixed handler_declining config_with_registry)
        [32, 9, 10] None
      = ([IsSolanaCommand [32, 9, 10]], Inr msg_empty)
   \<and> processMessage rt_ascii
        (new_AIProcessor rt_ascii model_fixed handler_declining config_with_registry)
        [] None
      = ([IsSolanaCommand []], Inr msg_empty)"
proof -
  let ?p = "new_AIProcessor rt_ascii model_fixed handler_declining config_with_registry"
  have w1: "\<forall>c\<in>set [32, 9, 10]. is_js_space c" by (simp add: is_js_space_def)
  have w2: "\<forall>c\<in>set ([]::nat list). is_js_space c" by simp
  have d: "declined ?p m" for m by (simp add: declined_def example_defs)
  have r: "recognition ?p m = [IsSolanaCommand m]" for m
    by (simp add: recognition_def example_defs)
  from empty_guidance [OF w1, of ?p rt_ascii None] empty_guidance [OF w2, of ?p rt_ascii None] d r
  show ?thesis by simp
qed

section \<open>The window of history sent to the completion client\<close>

lemma copy_turn: "map (\<lambda>m. \<lparr>role = role m, content = content m\<rparr>) h = h"
  by (induction h) simp_all

lemma completion_path_submits:
  assumes "cleanInput rt msg \<noteq> []" and "within_limit p (cleanInput rt msg)"
  shows "completion_path rt p msg history = submit rt p (cleanInput rt msg) history"
  using assms
  by (auto simp: completion_path_def within_limit_def Let_def split: option.splits)

lemma submit_trace:
  "fst (submit rt p cleaned history)
     = [GenerateChat (or_else (systemPrompt (config p)) (buildSystemPrompt rt))
          (slice_last 10 (or_empty history) @ [\<lparr>role = User, content = cleaned\<rparr>])]"
  by (simp add: submit_def Let_def copy_turn)

lemma slice_last_nth:
  "i < length (slice_last n xs) \<Longrightarrow> slice_last n xs ! i = xs ! (length xs - min n (length xs) + i)"
  by (auto simp: slice_last_def min_def)

text \<open>
  Claim C8. On the completion path the messages submitted to the completion client are
  the last ten turns of the supplied history (all of them when there are fewer), in
  their order, followed by the cleaned current message as a user turn; the turns before
  the last ten are left out.
\<close>

theorem completion_window:
  assumes "declined p msg"
    and "cleanInput rt msg \<noteq> []"
    and "within_limit p (cleanInput rt msg)"
  shows "fst (processMessage rt p msg history)
      = recognition p msg
        @ [GenerateChat (or_else (systemPrompt (config p)) (buildSystemPrompt rt))
             (slice_last 10 (or_empty history)
              @ [\<lparr>role = User, content = cleanInput rt msg\<rparr>])]
    \<and> slice_last 10 (or_empty history)
        = drop (length (or_empty history) - 10) (or_empty history)
    \<and> take (length (or_empty history) - 10) (or_empty history)
        @ slice_last 10 (or_empty history) = or_empty history
    \<and> length (slice_last 10 (or_empty history)) = min 10 (length (or_empty history))
    \<and> (\<forall>i < length (slice_last 10 (or_empty history)).
          slice_last 10 (or_empty history) ! i
          = or_empty history ! (length (or_empty history) - min 10 (length (or_empty history)) + i))"
proof -
  have a: "fst (processMessage rt p msg history)
      = recognition p msg
        @ [GenerateChat (or_else (systemPrompt (config p)) (buildSystemPrompt rt))
             (slice_last 10 (or_empty history)
              @ [\<lparr>role = User, content = cleanInput rt msg\<rparr>])]"
    using assms
    by (simp add: declined_processMessage completion_path_submits submit_trace)
  have b: "length (slice_last 10 (or_empty history)) = min 10 (length (or_empty history))"
    by (simp add: slice_last_def min_def)
  from a b show ?thesis
    by (simp add: slice_last_nth) (simp add: slice_last_def)
qed

theorem completion_window_witness:
  "fst (processMessage rt_ascii
          (new_AIProcessor rt_ascii model_fixed handler_declining config_with_registry)
          (ascii ''abc'')
          (Some [turn 0, turn 1, turn 2, turn 3, turn 4, turn 5, turn 6, turn 7, turn 8,
                 turn 9, turn 10, turn 11]))
     = [IsSolanaCommand (ascii ''abc''),
        GenerateChat (ascii ''system'')
          [turn 2, turn 3, turn 4, turn 5, turn 6, turn 7, turn 8, turn 9, turn 10, turn 11,
           \<lparr>role = User, content = ascii ''abc''\<rparr>]]"
proof -
  let ?p = "new_AIProcessor rt_ascii model_fixed handler_declining config_with_registry"
  let ?h = "[turn 0, turn 1, turn 2, turn 3, turn 4, turn 5, turn 6, turn 7, turn 8,
                 turn 9, turn 10, turn 11]"
  have h1: "declined ?p (ascii ''abc'')"
    by (simp add: declined_def example_defs)
  have h2: "cleanInput rt_ascii (ascii ''abc'') \<noteq> []"
    by (simp add: cleanInput_abc) (simp add: ascii_def)
  have h3: "within_limit ?p (cleanInput rt_ascii (ascii ''abc''))"
    unfolding cleanInput_abc
    by (simp add: within_limit_def new_AIProcessor_def config_with_registry_def
        spread_over_def ascii_def)
  have r: "recognition ?p (ascii ''abc'') = [IsSolanaCommand (ascii ''abc'')]"
    by (simp add: recognition_def example_defs)
  have s: "or_else (systemPrompt (config ?p)) (buildSystemPrompt rt_ascii) = ascii ''system''"
    by (simp add: or_else_def example_defs ascii_def)
  have w: "slice_last 10 (or_empty (Some ?h))
      = [turn 2, turn 3, turn 4, turn 5, turn 6, turn 7, turn 8, turn 9, turn 10, turn 11]"
    by (simp add: slice_last_def or_empty_def)
  from completion_window [OF h1 h2 h3, of "Some ?h"] r s w cleanInput_abc
  show ?thesis by simp
qed

section \<open>Output hygiene on the completion path\<close>

lemma last_dropWhile:
  "dropWhile P xs \<noteq> [] \<Longrightarrow> last (dropWhile P xs) = last xs"
proof -
  assume a: "dropWhile P xs \<noteq> []"
  have "last xs = last (takeWhile P xs @ dropWhile P xs)" by simp
  also have "\<dots> = last (dropWhile P xs)" using a by (rule last_appendR)
  finally show ?thesis by simp
qed

lemma collapse_newlines_append:
  "a = [] \<or> last a \<noteq> 10 \<Longrightarrow>
   collapse_newlines (a @ c) = collapse_newlines a @ collapse_newlines c"
proof (induction a rule: collapse_newlines.induct)
  case 1
  show ?case by simp
next
  case (2 x xs)
  show ?case
  proof (cases "x = 10")
    case False
    with "2.prems" have "xs = [] \<or> last xs \<noteq> 10" by (auto split: if_splits)
    with "2.IH"(2) [OF False] False show ?thesis by simp
  next
    case True
    with "2.prems" have ne: "xs \<noteq> []" and l: "last xs \<noteq> 10" by (auto split: if_splits)
    then have ex: "last xs \<in> set xs" by simp
    have tw: "takeWhile (\<lambda>x. x = 10) (xs @ c) = takeWhile (\<lambda>x. x = 10) xs"
      using ex l by (rule takeWhile_append1)
    have dw: "dropWhile (\<lambda>x. x = 10) (xs @ c) = dropWhile (\<lambda>x. x = 10) xs @ c"
      using ex l by (rule dropWhile_append1)
    have dne: "dropWhile (\<lambda>x. x = 10) xs \<noteq> []"
      using ex l by (auto simp: dropWhile_eq_Nil_conv)
    then have "last (dropWhile (\<lambda>x. x = 10) xs) \<noteq> 10"
      using l by (simp add: last_dropWhile)
    then have ih: "collapse_newlines (dropWhile (\<lambda>x. x = 10) xs @ c)
        = collapse_newlines (dropWhile (\<lambda>x. x = 10) xs) @ collapse_newlines c"
      using "2.IH"(1) [OF True refl] by simp
    show ?thesis using True by (simp add: tw dw ih Let_def)
  qed
qed

lemma collapse_newlines_run:
  assumes "b = [] \<or> hd b \<noteq> 10"
  shows "collapse_newlines (replicate k 10 @ b)
      = (if 3 \<le> k then [10, 10] else replicate k 10) @ collapse_newlines b"
proof (cases k)
  case 0
  then show ?thesis by simp
next
  case (Suc j)
  have tb: "takeWhile (\<lambda>x. x = 10) b = []" using assms by (cases b) auto
  have db: "dropWhile (\<lambda>x. x = 10) b = b" using assms by (cases b) auto
  have tw: "takeWhile (\<lambda>x. x = 10) (replicate j 10 @ b) = replicate j 10"
    by (subst takeWhile_append2) (auto simp: tb)
  have dw: "dropWhile (\<lambda>x. x = 10) (replicate j 10 @ b) = b"
    by (subst dropWhile_append2) (auto simp: db)
  show ?thesis using Suc by (simp add: tw dw Let_def)
qed

lemma collapse_newlines_plain: "10 \<notin> set a \<Longrightarrow> collapse_newlines a = a"
  by (induction a) auto

lemma collapse_newlines_runs:
  assumes "a = [] \<or> last a \<noteq> 10" and "b = [] \<or> hd b \<noteq> 10"
  shows "collapse_newlines (a @ replicate k 10 @ b)
      = collapse_newlines a @ (if 3 \<le> k then [10, 10] else replicate k 10)
        @ collapse_newlines b"
  using collapse_newlines_append [OF assms(1)] collapse_newlines_run [OF assms(2)]
  by simp

lemma submit_result:
  assumes "GenerateChat prompt ms \<in> set (fst (submit rt p cleaned history))"
    and "generateChat (model p) prompt ms = Inr response"
  shows "snd (submit rt p cleaned history) = Inr (cleanOutput response)"
  using assms by (auto simp: submit_def Let_def)

lemma completion_path_result:
  assumes "GenerateChat prompt ms \<in> set (fst (completion_path rt p msg history))"
    and "generateChat (model p) prompt ms = Inr response"
  shows "snd (completion_path rt p msg history) = Inr (cleanOutput response)"
  using assms submit_result [of prompt ms rt p "cleanInput rt msg" history response]
  by (auto simp: completion_path_def Let_def split: if_splits option.splits)

lemma processMessage_completion_result:
  assumes "GenerateChat prompt ms \<in> set (fst (processMessage rt p msg history))"
    and "generateChat (model p) prompt ms = Inr response"
  shows "snd (processMessage rt p msg history) = Inr (cleanOutput response)"
proof (cases "solanaHandler p")
  case None
  with assms completion_path_result [of prompt ms rt p msg history response]
  show ?thesis by (simp add: processMessage_def)
next
  case (Some h)
  show ?thesis
  proof (cases "isSolanaCommand h msg")
    case (Inl error)
    with Some assms show ?thesis by (simp add: processMessage_def)
  next
    case (Inr b)
    show ?thesis
    proof (cases b)
      case True
      with Some Inr assms command_path_no_completion [of prompt ms rt p h msg]
      show ?thesis by (simp add: processMessage_def after_def)
    next
      case False
      with Some Inr assms completion_path_result [of prompt ms rt p msg history response]
      show ?thesis by (simp add: processMessage_def after_def)
    qed
  qed
qed

lemma trim_decomposition:
  "\<exists>pre post. s = pre @ trim s @ post
     \<and> (\<forall>c\<in>set pre. is_js_space c) \<and> (\<forall>c\<in>set post. is_js_space c)"
proof -
  let ?d = "dropWhile is_js_space s"
  let ?post = "rev (takeWhile is_js_space (rev ?d))"
  have e: "takeWhile is_js_space (rev ?d) @ dropWhile is_js_space (rev ?d) = rev ?d"
    by (rule takeWhile_dropWhile_id)
  have "rev (takeWhile is_js_space (rev ?d) @ dropWhile is_js_space (rev ?d)) = rev (rev ?d)"
    by (simp only: e)
  then have "rev (dropWhile is_js_space (rev ?d)) @ ?post = ?d"
    by (simp only: rev_append rev_rev_ident)
  then have d: "?d = trim s @ ?post" by (simp only: trim_def)
  have "s = takeWhile is_js_space s @ ?d" by simp
  with d have "s = takeWhile is_js_space s @ trim s @ ?post" by simp
  moreover have "\<forall>c\<in>set (takeWhile is_js_space s). is_js_space c"
    by (auto dest: set_takeWhileD)
  moreover have "\<forall>c\<in>set ?post. is_js_space c"
    by (auto dest: set_takeWhileD)
  ultimately show ?thesis by blast
qed

lemma trim_ends:
  "trim s = [] \<or> (\<not> is_js_space (hd (trim s)) \<and> \<not> is_js_space (last (trim s)))"
proof (cases "trim s = []")
  case True
  then show ?thesis by simp
next
  case False
  let ?d = "dropWhile is_js_space s"
  let ?r = "dropWhile is_js_space (rev ?d)"
  from False have rne: "?r \<noteq> []" by (simp add: trim_def)
  then have "\<not> is_js_space (hd ?r)" by (rule hd_dropWhile)
  then have l: "\<not> is_js_space (last (trim s))"
    using rne by (simp add: trim_def last_rev)
  have dne: "?d \<noteq> []"
  proof
    assume "?d = []"
    then have "?r = []" by (simp only: rev.simps dropWhile.simps)
    with rne show False by contradiction
  qed
  then have hd_d: "\<not> is_js_space (hd ?d)" by (rule hd_dropWhile)
  have "hd (trim s) = last ?r" using rne by (simp add: trim_def hd_rev)
  also have "\<dots> = last (rev ?d)" using rne by (rule last_dropWhile)
  also have "\<dots> = hd ?d" using dne by (simp add: last_rev)
  finally have "\<not> is_js_space (hd (trim s))" using hd_d by simp
  with l show ?thesis by simp
qed


lemma fixed_reply_run:
  "processMessage rt_ascii
     (new_AIProcessor rt_ascii model_fixed handler_declining config_with_registry)
     (ascii ''abc'') None
   = ([IsSolanaCommand (ascii ''abc''),
       GenerateChat (ascii ''system'') [\<lparr>role = User, content = ascii ''abc''\<rparr>]],
      Inr (ascii ''a'' @ [10, 10] @ ascii ''b''))"
proof -
  let ?p = "new_AIProcessor rt_ascii model_fixed handler_declining config_with_registry"
  have h: "solanaHandler ?p = Some handler_declining" by (simp add: example_defs)
  have i: "isSolanaCommand handler_declining (ascii ''abc'') = Inr False"
    by (simp add: handler_declining_def)
  have m: "maxInputLength (config ?p) = Some 2000" by (simp add: example_defs)
  have s: "systemPrompt (config ?p) = Some (ascii ''system'')" by (simp add: example_defs)
  have g: "generateChat (model ?p) = (\<lambda>prompt messages. Inr reply_two_blank_lines)"
    by (simp add: example_defs)
  have n: "length (ascii ''abc'') = 3" "ascii ''abc'' \<noteq> []" "ascii ''system'' \<noteq> []"
    by (simp_all add: ascii_def)
  show ?thesis
    by (simp add: processMessage_def h i after_def completion_path_def cleanInput_abc m n submit_def s g
        cleanOutput_reply or_else_def or_empty_def slice_last_def)
qed

text \<open>
  The expression \<open>\n{3,}\<close> counts LINE FEEDs, not blank lines: a reply with two blank
  lines between two words (three LINE FEEDs) comes back with one blank line, where
  collapsing only runs of three or more blank lines would leave it as it is.
\<close>

theorem completion_output_spec_counterexample:
  "generateChat (model (new_AIProcessor rt_ascii model_fixed handler_declining
       config_with_registry)) (ascii ''system'') [\<lparr>role = User, content = ascii ''abc''\<rparr>]
     = Inr (ascii ''  a'' @ [10, 10, 10] @ ascii ''b  '')
   \<and> processMessage rt_ascii
        (new_AIProcessor rt_ascii model_fixed handler_declining config_with_registry)
        (ascii ''abc'') None
      = ([IsSolanaCommand (ascii ''abc''),
          GenerateChat (ascii ''system'') [\<lparr>role = User, content = ascii ''abc''\<rparr>]],
         Inr (ascii ''a'' @ [10, 10] @ ascii ''b''))
   \<and> cleanOutput_spec (ascii ''  a'' @ [10, 10, 10] @ ascii ''b  '')
      = ascii ''a'' @ [10, 10, 10] @ ascii ''b''"
proof -
  have "cleanOutput_spec (ascii ''  a'' @ [10, 10, 10] @ ascii ''b  '')
      = ascii ''a'' @ [10, 10, 10] @ ascii ''b''"
    by (simp add: cleanOutput_spec_def trim_def ascii_def is_js_space_def)
  moreover have "generateChat (model (new_AIProcessor rt_ascii model_fixed handler_declining
       config_with_registry)) (ascii ''system'') [\<lparr>role = User, content = ascii ''abc''\<rparr>]
     = Inr (ascii ''  a'' @ [10, 10, 10] @ ascii ''b  '')"
    by (simp add: example_defs)
  ultimately show ?thesis using fixed_reply_run by simp
qed

text \<open>
  Claim C7, amended. Whenever the completion client is called and returns a reply, the
  text returned is the reply with leading and trailing white space removed and every
  maximal run of three or more LINE FEEDs (two or more consecutive blank lines) replaced
  by exactly two LINE FEEDs (one blank line); shorter runs of LINE FEEDs and all other
  text are unchanged.
\<close>

theorem completion_output_cleaned:
  assumes "GenerateChat prompt ms \<in> set (fst (processMessage rt p msg history))"
    and "generateChat (model p) prompt ms = Inr response"
  shows "snd (processMessage rt p msg history) = Inr (collapse_newlines (trim response))
    \<and> (\<exists>pre post. response = pre @ trim response @ post
          \<and> (\<forall>c\<in>set pre. is_js_space c) \<and> (\<forall>c\<in>set post. is_js_space c))
    \<and> (trim response = []
        \<or> (\<not> is_js_space (hd (trim response)) \<and> \<not> is_js_space (last (trim response))))
    \<and> (\<forall>a k b. (a = [] \<or> last a \<noteq> 10) \<and> (b = [] \<or> hd b \<noteq> 10) \<longrightarrow>
          collapse_newlines (a @ replicate k 10 @ b)
          = collapse_newlines a @ (if 3 \<le> k then [10, 10] else replicate k 10)
            @ collapse_newlines b)
    \<and> (\<forall>a. 10 \<notin> set a \<longrightarrow> collapse_newlines a = a)"
proof -
  have "snd (processMessage rt p msg history) = Inr (collapse_newlines (trim response))"
    using processMessage_completion_result [OF assms] by (simp add: cleanOutput_def)
  then show ?thesis
    using trim_decomposition [of response] trim_ends [of response]
    by (simp add: collapse_newlines_runs collapse_newlines_plain)
qed

theorem completion_output_cleaned_witness:
  "GenerateChat (ascii ''system'') [\<lparr>role = User, content = ascii ''abc''\<rparr>]
     \<in> set (fst (processMessage rt_ascii
          (new_AIProcessor rt_ascii model_fixed handler_declining config_with_registry)
          (ascii ''abc'') None))
   \<and> generateChat (model (new_AIProcessor rt_ascii model_fixed handler_declining
         config_with_registry)) (ascii ''system'') [\<lparr>role = User, content = ascii ''abc''\<rparr>]
       = Inr reply_two_blank_lines
   \<and> snd (processMessage rt_ascii
          (new_AIProcessor rt_ascii model_fixed handler_declining config_with_registry)
          (ascii ''abc'') None)
       = Inr (collapse_newlines (trim reply_two_blank_lines))
   \<and> collapse_newlines (trim reply_two_blank_lines) = ascii ''a'' @ [10, 10] @ ascii ''b''"
proof -
  let ?p = "new_AIProcessor rt_ascii model_fixed handler_declining config_with_registry"
  let ?ms = "[\<lparr>role = User, content = ascii ''abc''\<rparr>]"
  have h1: "GenerateChat (ascii ''system'') ?ms
     \<in> set (fst (processMessage rt_ascii ?p (ascii ''abc'') None))"
    by (simp add: fixed_reply_run)
  have h2: "generateChat (model ?p) (ascii ''system'') ?ms = Inr reply_two_blank_lines"
    by (simp add: example_defs)
  have v: "collapse_newlines (trim reply_two_blank_lines) = ascii ''a'' @ [10, 10] @ ascii ''b''"
    using cleanOutput_reply by (simp add: cleanOutput_def)
  from completion_output_cleaned [OF h1 h2] h1 h2 v
  show ?thesis by blast
qed

section \<open>Capabilities of the local profile\<close>

lemma find_append_none:
  "\<forall>x\<in>set xs. \<not> P x \<Longrightarrow> find P (xs @ ys) = find P ys"
  by (induction xs) auto

lemma find_first:
  "\<forall>x\<in>set pre. \<not> P x \<Longrightarrow> P c \<Longrightarrow> find P (pre @ c # post) = Some c"
  by (simp add: find_append_none)

lemma find_none: "\<forall>x\<in>set xs. \<not> P x \<Longrightarrow> find P xs = None"
  by (induction xs) auto

text \<open>
  \<open>addCapability\<close> does not look for a capability of the same name, and
  \<open>toggleCapability\<close> changes the first one that matches: when the profile already holds
  a capability named X, the one added after it stays enabled.
\<close>

theorem toggle_duplicate_counterexample:
  "profile (addCapability manager_fresh 1)
     = Some (profile_fresh\<lparr>capabilities := [1]\<rparr>)
   \<and> name (store (addCapability manager_fresh 1) 2) = ascii ''X''
   \<and> enabled (store (addCapability manager_fresh 1) 2)
   \<and> getEnabledCapabilities
        (toggleCapability (addCapability (addCapability manager_fresh 1) 2) (ascii ''X'') False)
      = [2]
   \<and> name (store
        (toggleCapability (addCapability (addCapability manager_fresh 1) 2) (ascii ''X'') False)
        2) = ascii ''X''"
  by (simp add: manager_fresh_def profile_fresh_def capability_X_def addCapability_def
      toggleCapability_def getEnabledCapabilities_def)

text \<open>
  Claim C9, amended. For an initialised profile that holds no capability named X, adding
  a capability named X and then calling \<open>toggleCapability\<close> with X and false leaves no
  enabled capability named X: the enabled capabilities are those enabled before, none if
  there were none. \<open>toggleCapability\<close> sets the flag of the first capability whose name
  matches and changes nothing when none matches or the profile is not initialised, and
  \<open>getEnabledCapabilities\<close> is empty when the profile is not initialised.
\<close>

theorem toggle_after_add:
  assumes "profile mgr = Some p"
    and "\<forall>c\<in>set (capabilities p). name (store mgr c) \<noteq> X"
    and "name (store mgr r) = X"
  shows "(\<forall>c\<in>set (getEnabledCapabilities (toggleCapability (addCapability mgr r) X False)).
            name (store (toggleCapability (addCapability mgr r) X False) c) \<noteq> X)
    \<and> getEnabledCapabilities (toggleCapability (addCapability mgr r) X False)
        = getEnabledCapabilities mgr
    \<and> ((\<forall>c\<in>set (capabilities p). \<not> enabled (store mgr c)) \<longrightarrow>
          getEnabledCapabilities (toggleCapability (addCapability mgr r) X False) = [])
    \<and> (profile m = None \<longrightarrow> toggleCapability m n e = m \<and> getEnabledCapabilities m = [])
    \<and> (profile m = Some q \<and> (\<forall>c\<in>set (capabilities q). name (store m c) \<noteq> n)
          \<longrightarrow> toggleCapability m n e = m)
    \<and> (profile m = Some q \<and> capabilities q = pre @ c # post
          \<and> (\<forall>x\<in>set pre. name (store m x) \<noteq> n) \<and> name (store m c) = n
          \<longrightarrow> toggleCapability m n e
              = m\<lparr>store := (store m)(c := (store m c)\<lparr>enabled := e\<rparr>)\<rparr>)"
proof -
  let ?m' = "toggleCapability (addCapability mgr r) X False"
  from assms(2,3) have fresh: "r \<notin> set (capabilities p)" by auto
  have f: "find (\<lambda>c. name (store mgr c) = X) (capabilities p @ [r]) = Some r"
    using assms(2,3) by (simp add: find_first)
  have m': "?m' = mgr\<lparr>profile := Some (p\<lparr>capabilities := capabilities p @ [r]\<rparr>),
      store := (store mgr)(r := (store mgr r)\<lparr>enabled := False\<rparr>)\<rparr>"
    using assms(1) f by (simp add: addCapability_def toggleCapability_def)
  have same: "filter (\<lambda>c. enabled (((store mgr)(r := (store mgr r)\<lparr>enabled := False\<rparr>)) c))
        (capabilities p)
      = filter (\<lambda>c. enabled (store mgr c)) (capabilities p)"
    using fresh by (intro filter_cong) auto
  have g: "getEnabledCapabilities ?m' = getEnabledCapabilities mgr"
    using assms(1) same by (simp add: m' getEnabledCapabilities_def)
  have a: "\<forall>c\<in>set (getEnabledCapabilities ?m'). name (store ?m' c) \<noteq> X"
  proof
    fix c
    assume "c \<in> set (getEnabledCapabilities ?m')"
    then have "c \<in> set (getEnabledCapabilities mgr)" by (simp only: g)
    then have c: "c \<in> set (capabilities p)"
      using assms(1) by (simp add: getEnabledCapabilities_def)
    with fresh have "c \<noteq> r" by auto
    then have "store ?m' c = store mgr c" by (simp add: m')
    with c assms(2) show "name (store ?m' c) \<noteq> X" by simp
  qed
  have b: "(\<forall>c\<in>set (capabilities p). \<not> enabled (store mgr c)) \<longrightarrow>
          getEnabledCapabilities ?m' = []"
    unfolding g using assms(1) by (simp add: getEnabledCapabilities_def)
  have c1: "profile m = None \<longrightarrow> toggleCapability m n e = m \<and> getEnabledCapabilities m = []"
    by (simp add: toggleCapability_def getEnabledCapabilities_def)
  have c2: "profile m = Some q \<and> (\<forall>c\<in>set (capabilities q). name (store m c) \<noteq> n)
          \<longrightarrow> toggleCapability m n e = m"
    by (simp add: toggleCapability_def find_none)
  have c3: "profile m = Some q \<and> capabilities q = pre @ c # post
          \<and> (\<forall>x\<in>set pre. name (store m x) \<noteq> n) \<and> name (store m c) = n
          \<longrightarrow> toggleCapability m n e
              = m\<lparr>store := (store m)(c := (store m c)\<lparr>enabled := e\<rparr>)\<rparr>"
    by (simp add: toggleCapability_def find_first)
  from a g b c1 c2 c3 show ?thesis by blast
qed

theorem toggle_after_add_witness:
  "profile manager_fresh = Some profile_fresh
   \<and> name (store manager_fresh 1) = ascii ''X''
   \<and> enabled (store manager_fresh 1)
   \<and> getEnabledCapabilities (addCapability manager_fresh 1) = [1]
   \<and> getEnabledCapabilities
        (toggleCapability (addCapability manager_fresh 1) (ascii ''X'') False) = []"
proof -
  have h1: "profile manager_fresh = Some profile_fresh"
    by (simp add: manager_fresh_def)
  have h2: "\<forall>c\<in>set (capabilities profile_fresh). name (store manager_fresh c) \<noteq> ascii ''X''"
    by (simp add: profile_fresh_def)
  have h3: "name (store manager_fresh 1) = ascii ''X''"
    by (simp add: manager_fresh_def capability_X_def)
  have e: "enabled (store manager_fresh 1)"
    by (simp add: manager_fresh_def capability_X_def)
  have g: "getEnabledCapabilities (addCapability manager_fresh 1) = [1]"
    by (simp add: manager_fresh_def profile_fresh_def capability_X_def addCapability_def
        getEnabledCapabilities_def)
  have n: "\<forall>c\<in>set (capabilities profile_fresh). \<not> enabled (store manager_fresh c)"
    by (simp add: profile_fresh_def)
  note inst = toggle_after_add [where m = manager_fresh and n = "[]" and e = True
      and q = profile_fresh and pre = "[]" and c = 0 and post = "[]", OF h1 h2 h3]
  from inst n have "getEnabledCapabilities
      (toggleCapability (addCapability manager_fresh 1) (ascii ''X'') False) = []"
    by blast
  with h1 h3 e g show ?thesis by simp
qed

section \<open>Statistics of recorded tasks\<close>

lemma successes_failures_length: "successes calls + failures calls = length calls"
  unfolding successes_def failures_def
  by (induction calls) auto

lemma successes_snoc:
  "successes (calls @ [(d, s, ok, now)]) = successes calls + (if ok then 1 else 0)"
  by (simp add: successes_def)

lemma failures_snoc:
  "failures (calls @ [(d, s, ok, now)]) = failures calls + (if ok then 0 else 1)"
  by (simp add: failures_def)

lemma record_all_snoc:
  "record_all reg agentId (calls @ [(d, s, ok, now)])
     = recordTask_spec (record_all reg agentId calls) agentId d s ok now"
  by (induction reg agentId calls rule: record_all.induct) simp_all

lemma clamp_reputation_range: "0 \<le> clamp_reputation r \<and> clamp_reputation r \<le> 100"
  by (simp add: clamp_reputation_def)

lemma record_all_counts:
  assumes "reg agentId = Some e"
  shows "\<exists>e'. record_all reg agentId calls agentId = Some e'
      \<and> successCount e' = successCount e + successes calls
      \<and> failureCount e' = failureCount e + failures calls
      \<and> tasksCompleted (entry_profile e') = tasksCompleted (entry_profile e) + length calls
      \<and> (calls \<noteq> [] \<longrightarrow>
           successRate (entry_profile e')
             = 100 * real (successCount e') / real (successCount e' + failureCount e')
           \<and> 0 \<le> reputation (entry_profile e') \<and> reputation (entry_profile e') \<le> 100)"
proof (induction calls rule: rev_induct)
  case Nil
  with assms show ?case by (simp add: successes_def failures_def)
next
  case (snoc c calls)
  obtain d s ok now where c: "c = (d, s, ok, now)" by (cases c) auto
  from snoc obtain e1 where e1: "record_all reg agentId calls agentId = Some e1"
    and s1: "successCount e1 = successCount e + successes calls"
    and f1: "failureCount e1 = failureCount e + failures calls"
    and t1: "tasksCompleted (entry_profile e1) = tasksCompleted (entry_profile e) + length calls"
    by blast
  show ?case
    unfolding c record_all_snoc
    using e1 s1 f1 t1
    by (simp add: recordTask_spec_def Let_def successes_snoc failures_snoc
        clamp_reputation_range)
qed

lemma record_all_other:
  "other \<noteq> agentId \<Longrightarrow> record_all reg agentId calls other = reg other"
proof (induction calls rule: rev_induct)
  case Nil
  show ?case by simp
next
  case (snoc c calls)
  obtain d s ok now where c: "c = (d, s, ok, now)" by (cases c) auto
  from snoc show ?case
    unfolding c record_all_snoc
    by (simp add: recordTask_spec_def Let_def split: option.splits)
qed

lemma three_calls_run:
  "record_all registry_one (ascii ''agent-1'') three_calls (ascii ''agent-1'')
     = Some \<lparr>entry_profile = profile_fresh\<lparr>tasksCompleted := 3, successRate := 200 / 3,
               reputation := 1, lastActive := 3\<rparr>,
             successCount = 2, failureCount = 1\<rparr>"
  by (simp add: three_calls_def registry_one_def entry_fresh_def recordTask_spec_def
      clamp_reputation_def Let_def profile_fresh_def)

text \<open>
  Claim C6. For every sequence of recordings on one registered agent that starts with
  no task recorded, with \<open>n\<close> successes and \<open>m\<close> failures in any order: afterwards
  \<open>tasksCompleted\<close> is \<open>n + m\<close>, \<open>successRate\<close> is \<open>100 * n / (n + m)\<close> once a task has been
  recorded, and \<open>reputation\<close> lies between 0 and 100.
\<close>

theorem recordTask_statistics:
  assumes "reg agentId = Some e"
    and "successCount e = 0" and "failureCount e = 0"
    and "tasksCompleted (entry_profile e) = 0"
    and "0 \<le> reputation (entry_profile e)" and "reputation (entry_profile e) \<le> 100"
  shows "\<exists>e'. record_all reg agentId calls agentId = Some e'
      \<and> tasksCompleted (entry_profile e') = successes calls + failures calls
      \<and> successes calls + failures calls = length calls
      \<and> (calls \<noteq> [] \<longrightarrow>
           successRate (entry_profile e')
             = 100 * real (successes calls) / real (successes calls + failures calls))
      \<and> 0 \<le> reputation (entry_profile e') \<and> reputation (entry_profile e') \<le> 100"
proof -
  from record_all_counts [of reg agentId e calls] assms(1) obtain e'
    where r: "record_all reg agentId calls agentId = Some e'"
      and s: "successCount e' = successCount e + successes calls"
      and f: "failureCount e' = failureCount e + failures calls"
      and t: "tasksCompleted (entry_profile e') = tasksCompleted (entry_profile e) + length calls"
      and n: "calls \<noteq> [] \<longrightarrow>
           successRate (entry_profile e')
             = 100 * real (successCount e') / real (successCount e' + failureCount e')
           \<and> 0 \<le> reputation (entry_profile e') \<and> reputation (entry_profile e') \<le> 100"
    by blast
  have rep: "0 \<le> reputation (entry_profile e') \<and> reputation (entry_profile e') \<le> 100"
  proof (cases "calls = []")
    case True
    with r assms(1,5,6) show ?thesis by simp
  next
    case False
    with n show ?thesis by simp
  qed
  from r s f t n rep assms(2,3,4) show ?thesis
    by (simp add: successes_failures_length)
qed

theorem recordTask_statistics_witness:
  "registry_one (ascii ''agent-1'') = Some entry_fresh
   \<and> successes three_calls = 2 \<and> failures three_calls = 1
   \<and> map_option (\<lambda>e. (tasksCompleted (entry_profile e), successRate (entry_profile e),
          reputation (entry_profile e)))
        (record_all registry_one (ascii ''agent-1'') three_calls (ascii ''agent-1''))
      = Some (3, 200 / 3, 1)"
proof -
  have h1: "registry_one (ascii ''agent-1'') = Some entry_fresh"
    by (simp add: registry_one_def)
  have h2: "successCount entry_fresh = 0" and h3: "failureCount entry_fresh = 0"
    and h4: "tasksCompleted (entry_profile entry_fresh) = 0"
    and h5: "0 \<le> reputation (entry_profile entry_fresh)"
    and h6: "reputation (entry_profile entry_fresh) \<le> 100"
    by (simp_all add: entry_fresh_def profile_fresh_def)
  have c: "successes three_calls = 2" "failures three_calls = 1"
    by (simp_all add: successes_def failures_def three_calls_def)
  from recordTask_statistics [of registry_one "ascii ''agent-1''" entry_fresh three_calls]
    h1 h2 h3 h4 h5 h6
  obtain e'
    where "record_all registry_one (ascii ''agent-1'') three_calls (ascii ''agent-1'') = Some e'"
    by blast
  with three_calls_run h1 c show ?thesis by simp
qed

end
